theory Spec2Isabelle
  imports Main
begin

section \<open>Errors\<close>

text \<open>
  Go error values. \<open>ErrorString\<close> is an error made by \<^verbatim>\<open>errors.New\<close> or by
  \<^verbatim>\<open>fmt.Errorf\<close> without \<^verbatim>\<open>%w\<close>, identified by its message; \<open>Wrapped w m\<close> is
  \<^verbatim>\<open>fmt.Errorf("%w: ...", w, ...)\<close> with the full message \<open>m\<close>; \<open>ProxyError\<close> is the
  struct of that name with its fields StatusCode, Status and Message.
\<close>

datatype error =
    ErrorString string
  | Wrapped error string
  | ProxyError int string string

fun Error :: "error \<Rightarrow> string" where
  "Error (ErrorString s) = s"
| "Error (Wrapped w m) = m"
| "Error (ProxyError code status message) =
     (if message \<noteq> [] then ''connecttunnel: proxy returned '' @ status @ '': '' @ message
      else ''connecttunnel: proxy returned '' @ status)"

definition ErrProxyConnect :: error where
  "ErrProxyConnect = ErrorString ''connecttunnel: proxy connection failed''"


definition EOF :: error where
  "EOF = ErrorString ''EOF''"

section \<open>Requests, connections and configuration\<close>

text \<open>The fields of \<^verbatim>\<open>http.Request\<close> that the handlers read.\<close>

record request =
  Method :: string
  RequestURI :: string
  Host :: string
  ProtoMajor :: int

definition MethodConnect :: string where
  "MethodConnect = ''CONNECT''"

record tls_Config =
  ServerName :: string

text \<open>
  Every closable resource is a handle: a socket obtained from a dial function or from a
  hijack, a TLS client layered on a connection, the two ends of an \<^verbatim>\<open>io.Pipe\<close>, and
  the body of a response.
\<close>

datatype conn =
    NetConn nat
  | TLSClient conn tls_Config
  | PipeReader nat
  | PipeWriter nat
  | ResponseBody nat

type_synonym TunnelFunc = "request \<Rightarrow> error option"

type_synonym DialFunc = "string \<Rightarrow> string \<Rightarrow> error + conn"

record ServerConfig =
  OnTunnel :: "TunnelFunc option"
  Dial :: "DialFunc option"
  ErrorLog :: "nat option"

text \<open>
  What the handler observes of its surroundings: the result of the standard library's
  \<^verbatim>\<open>net.Dialer{}.DialContext\<close>, and, per response writer, whether it is an
  \<^verbatim>\<open>http.Hijacker\<close> (and what \<^verbatim>\<open>Hijack\<close> returns), and the results of the
  buffered write and flush and of the response controller's calls.
\<close>

record env =
  net_Dialer :: DialFunc

record ResponseWriter =
  Hijacker :: "(error + conn) option"
  WriteString_result :: "error option"
  Flush_result :: "error option"
  EnableFullDuplex_result :: "error option"
  rc_Flush_result :: "error option"

datatype logger = ErrorLogger nat | log_Default

datatype dial_func = ConfigDial DialFunc | net_Dialer_DialContext

datatype dial_kind = ViaConfigDial | ViaNetDialer

text \<open>
  The calls a handler makes, in the order it makes them. A handler is a function from its
  surroundings and the request to this sequence; the request's context, which the handler
  only passes on, is left out.
\<close>

datatype event =
    HttpError string int
  | OnTunnelCalled "error option"
  | LogPrintf logger string
  | DialCalled dial_kind string string
  | ConnClose conn
  | HijackCalled
  | BufWriteString string
  | BufFlush
  | GoTunnel conn conn
  | EnableFullDuplexCalled
  | WriteHeader int
  | RcFlush
  | H2Tunnel conn
  | NilPanic

definition getDialFunc :: "ServerConfig \<Rightarrow> dial_func" where
  "getDialFunc c = (case Dial c of Some d \<Rightarrow> ConfigDial d | None \<Rightarrow> net_Dialer_DialContext)"

definition getLogger :: "ServerConfig \<Rightarrow> logger" where
  "getLogger c = (case ErrorLog c of Some l \<Rightarrow> ErrorLogger l | None \<Rightarrow> log_Default)"

definition checkTunnel :: "ServerConfig \<Rightarrow> request \<Rightarrow> error option \<times> event list" where
  "checkTunnel c req =
     (case OnTunnel c of
        Some f \<Rightarrow> (f req, [OnTunnelCalled (f req)])
      | None \<Rightarrow> (None, []))"

fun call_dial :: "env \<Rightarrow> dial_func \<Rightarrow> string \<Rightarrow> string \<Rightarrow> error + conn" where
  "call_dial e (ConfigDial d) network address = d network address"
| "call_dial e net_Dialer_DialContext network address = net_Dialer e network address"

fun kind_of :: "dial_func \<Rightarrow> dial_kind" where
  "kind_of (ConfigDial d) = ViaConfigDial"
| "kind_of net_Dialer_DialContext = ViaNetDialer"

section \<open>Server handshake, HTTP/1.1\<close>

record h1Handler =
  h1_cfg :: "ServerConfig option"

definition emptyServerConfig :: ServerConfig where
  "emptyServerConfig = \<lparr>OnTunnel = None, Dial = None, ErrorLog = None\<rparr>"

definition NewH1Handler :: "ServerConfig option \<Rightarrow> h1Handler" where
  "NewH1Handler cfg =
     (case cfg of
        None \<Rightarrow> \<lparr>h1_cfg = Some emptyServerConfig\<rparr>
      | Some c \<Rightarrow> \<lparr>h1_cfg = Some c\<rparr>)"

definition CRLF :: string where
  "CRLF = [CHR 0x0D, CHR 0x0A]"

definition established :: string where
  "established = ''HTTP/1.1 200 Connection Established'' @ CRLF @ CRLF"

definition h1_respond :: "ServerConfig \<Rightarrow> ResponseWriter \<Rightarrow> conn \<Rightarrow> conn \<Rightarrow> event list" where
  "h1_respond c w client upstream =
     BufWriteString established #
     (case WriteString_result w of
        Some err \<Rightarrow>
          [ConnClose client, ConnClose upstream,
           LogPrintf (getLogger c) (''failed to write response: '' @ Error err)]
      | None \<Rightarrow>
          BufFlush #
          (case Flush_result w of
             Some err \<Rightarrow>
               [ConnClose client, ConnClose upstream,
                LogPrintf (getLogger c) (''failed to flush response: '' @ Error err)]
           | None \<Rightarrow> [GoTunnel client upstream]))"

definition h1_hijack :: "ServerConfig \<Rightarrow> ResponseWriter \<Rightarrow> conn \<Rightarrow> event list" where
  "h1_hijack c w upstream =
     (case Hijacker w of
        None \<Rightarrow> [ConnClose upstream, HttpError ''Internal Server Error'' 500]
      | Some r \<Rightarrow>
          HijackCalled #
          (case r of
             Inl err \<Rightarrow>
               [ConnClose upstream,
                LogPrintf (getLogger c) (''hijack failed: '' @ Error err),
                HttpError ''Internal Server Error'' 500]
           | Inr client \<Rightarrow> h1_respond c w client upstream))"

definition h1Handler_ServeHTTP ::
  "env \<Rightarrow> h1Handler \<Rightarrow> ResponseWriter \<Rightarrow> request \<Rightarrow> event list" where
  "h1Handler_ServeHTTP e h w req =
     (if Method req \<noteq> MethodConnect then [HttpError ''Method not allowed'' 405]
      else if RequestURI req = [] \<or> RequestURI req = ''/''
      then [HttpError ''Bad request: missing target'' 400]
      else
        (case h1_cfg h of
           None \<Rightarrow> [NilPanic]
         | Some c \<Rightarrow>
             (case checkTunnel c req of
                (Some err, evs) \<Rightarrow>
                  evs @ [LogPrintf (getLogger c) (''tunnel rejected: '' @ Error err),
                         HttpError ''Forbidden'' 403]
              | (None, evs) \<Rightarrow>
                  evs @ DialCalled (kind_of (getDialFunc c)) ''tcp'' (RequestURI req) #
                  (case call_dial e (getDialFunc c) ''tcp'' (RequestURI req) of
                     Inl err \<Rightarrow>
                       [LogPrintf (getLogger c)
                          (''failed to dial '' @ RequestURI req @ '': '' @ Error err),
                        HttpError ''Bad Gateway'' 502]
                   | Inr upstream \<Rightarrow> h1_hijack c w upstream))))"

section \<open>Server handshake, HTTP/2\<close>

record h2Handler =
  h2_cfg :: "ServerConfig option"

definition NewH2Handler :: "ServerConfig option \<Rightarrow> h2Handler" where
  "NewH2Handler cfg =
     (case cfg of
        None \<Rightarrow> \<lparr>h2_cfg = Some emptyServerConfig\<rparr>
      | Some c \<Rightarrow> \<lparr>h2_cfg = Some c\<rparr>)"

definition h2_respond :: "ServerConfig \<Rightarrow> ResponseWriter \<Rightarrow> conn \<Rightarrow> event list" where
  "h2_respond c w upstream =
     EnableFullDuplexCalled #
     (case EnableFullDuplex_result w of
        Some err \<Rightarrow>
          [ConnClose upstream,
           LogPrintf (getLogger c) (''failed to enable full duplex: '' @ Error err),
           HttpError ''Internal Server Error'' 500]
      | None \<Rightarrow>
          WriteHeader 200 # RcFlush #
          (case rc_Flush_result w of
             Some err \<Rightarrow>
               [ConnClose upstream,
                LogPrintf (getLogger c) (''failed to flush response: '' @ Error err)]
           | None \<Rightarrow> [H2Tunnel upstream]))"

definition h2Handler_ServeHTTP ::
  "env \<Rightarrow> h2Handler \<Rightarrow> ResponseWriter \<Rightarrow> request \<Rightarrow> event list" where
  "h2Handler_ServeHTTP e h w req =
     (if ProtoMajor req \<noteq> 2 then [HttpError ''HTTP/2 required'' 505]
      else if Method req \<noteq> MethodConnect then [HttpError ''Method not allowed'' 405]
      else if Host req = [] then [HttpError ''Bad request: missing target'' 400]
      else
        (case h2_cfg h of
           None \<Rightarrow> [NilPanic]
         | Some c \<Rightarrow>
             (case checkTunnel c req of
                (Some err, evs) \<Rightarrow>
                  evs @ [LogPrintf (getLogger c) (''tunnel rejected: '' @ Error err),
                         HttpError ''Forbidden'' 403]
              | (None, evs) \<Rightarrow>
                  evs @ DialCalled (kind_of (getDialFunc c)) ''tcp'' (Host req) #
                  (case call_dial e (getDialFunc c) ''tcp'' (Host req) of
                     Inl err \<Rightarrow>
                       [LogPrintf (getLogger c)
                          (''failed to dial '' @ Host req @ '': '' @ Error err),
                        HttpError ''Bad Gateway'' 502]
                   | Inr upstream \<Rightarrow> h2_respond c w upstream))))"

section \<open>Unified dispatch\<close>

record unifiedHandler =
  u_cfg :: "ServerConfig option"
  h1 :: h1Handler
  h2 :: h2Handler

definition NewHandler :: "ServerConfig option \<Rightarrow> unifiedHandler" where
  "NewHandler cfg =
     (let cfg' = (case cfg of None \<Rightarrow> Some emptyServerConfig | Some c \<Rightarrow> Some c)
      in \<lparr>u_cfg = cfg', h1 = NewH1Handler cfg', h2 = NewH2Handler cfg'\<rparr>)"

definition unifiedHandler_ServeHTTP ::
  "env \<Rightarrow> unifiedHandler \<Rightarrow> ResponseWriter \<Rightarrow> request \<Rightarrow> event list" where
  "unifiedHandler_ServeHTTP e h w req =
     (if Method req \<noteq> MethodConnect then [HttpError ''Method not allowed'' 405]
      else if ProtoMajor req = 2 then h2Handler_ServeHTTP e (h2 h) w req
      else h1Handler_ServeHTTP e (h1 h) w req)"

text \<open>The status codes written to the peer through the response writer.\<close>

fun statuses :: "event list \<Rightarrow> int list" where
  "statuses [] = []"
| "statuses (HttpError msg code # evs) = code # statuses evs"
| "statuses (WriteHeader code # evs) = code # statuses evs"
| "statuses (ev # evs) = statuses evs"

fun is_dial :: "event \<Rightarrow> bool" where
  "is_dial (DialCalled k network address) = True"
| "is_dial ev = False"

fun is_auth :: "event \<Rightarrow> bool" where
  "is_auth (OnTunnelCalled r) = True"
| "is_auth ev = False"

section \<open>Stub callbacks for concrete runs\<close>

text \<open>
  Dial functions and authorization callbacks that ignore their arguments, as the tests of
  the package use them: a dial function that returns a given connection or a given error,
  and a callback that accepts or rejects every request.
\<close>

definition dial_to :: "conn \<Rightarrow> DialFunc" where
  "dial_to c network address = Inr c"

definition dial_fails :: "error \<Rightarrow> DialFunc" where
  "dial_fails err network address = Inl err"

definition reject_all :: "error \<Rightarrow> TunnelFunc" where
  "reject_all err req = Some err"

definition accept_all :: TunnelFunc where
  "accept_all req = None"

text \<open>
  Observations on a run: the strings written to the hijacked connection's buffer, and
  whether an event starts the relay.
\<close>

fun written :: "event list \<Rightarrow> string list" where
  "written [] = []"
| "written (BufWriteString s # evs) = s # written evs"
| "written (ev # evs) = written evs"

fun is_tunnel :: "event \<Rightarrow> bool" where
  "is_tunnel (GoTunnel client upstream) = True"
| "is_tunnel (H2Tunnel upstream) = True"
| "is_tunnel ev = False"

section \<open>Connection adapters\<close>

record remoteAddr =
  addr :: string

definition remoteAddr_Network :: "remoteAddr \<Rightarrow> string" where
  "remoteAddr_Network a = ''connecttunnel''"

definition remoteAddr_String :: "remoteAddr \<Rightarrow> string" where
  "remoteAddr_String a = addr a"

text \<open>
  A \<^verbatim>\<open>net.Addr\<close> is either the package's own \<open>remoteAddr\<close> or a \<^verbatim>\<open>net.TCPAddr\<close>
  (IP and port) of the standard library.
\<close>

datatype net_Addr = Addr_remoteAddr remoteAddr | Addr_TCPAddr string nat

record h2Conn =
  reader :: conn
  writer :: conn
  pr :: conn
  pw :: conn

record streamConnRW =
  rwc :: h2Conn
  sc_addr :: net_Addr

record tunnelConn =
  Conn :: conn
  closer :: "conn option"

datatype client_event =
    ProxyDialed string string
  | RequestWritten conn
  | ReadResponseCalled conn
  | Closed conn
  | PipeCreated nat
  | HeaderFuncCalled
  | RoundTripCalled request "(string \<times> string list) list"

text \<open>
  Closing: \<open>cl\<close> gives the result of the \<^verbatim>\<open>Close\<close> method of each handle. Each
  function returns the error and the close calls it made, in order.
\<close>

definition h2Conn_Close ::
  "(conn \<Rightarrow> error option) \<Rightarrow> h2Conn \<Rightarrow> error option \<times> client_event list" where
  "h2Conn_Close cl c =
     (let err1 = cl (reader c); err2 = cl (writer c)
      in (if err1 \<noteq> None then err1 else err2, [Closed (reader c), Closed (writer c)]))"

definition streamConnRW_Close ::
  "(conn \<Rightarrow> error option) \<Rightarrow> streamConnRW \<Rightarrow> error option \<times> client_event list" where
  "streamConnRW_Close cl c = h2Conn_Close cl (rwc c)"

definition streamConnRW_RemoteAddr :: "streamConnRW \<Rightarrow> net_Addr" where
  "streamConnRW_RemoteAddr c = sc_addr c"

definition streamConnRW_LocalAddr :: "streamConnRW \<Rightarrow> net_Addr" where
  "streamConnRW_LocalAddr c = Addr_TCPAddr ''0.0.0.0'' 0"

definition tunnelConn_Close ::
  "(conn \<Rightarrow> error option) \<Rightarrow> tunnelConn \<Rightarrow> error option \<times> client_event list" where
  "tunnelConn_Close cl c =
     (let err1 = cl (Conn c)
      in case closer c of
           Some k \<Rightarrow>
             (let err2 = cl k
              in (if err1 = None then err2 else err1, [Closed (Conn c), Closed k]))
         | None \<Rightarrow> (err1, [Closed (Conn c)]))"

section \<open>Client dialers\<close>

definition HasPrefix :: "string \<Rightarrow> string \<Rightarrow> bool" where
  "HasPrefix s prefix = (length prefix \<le> length s \<and> take (length prefix) s = prefix)"

record response =
  StatusCode :: int
  Status :: string
  Body :: conn

type_synonym Header = "(string \<times> string list) list"

text \<open>
  What a dialer observes: the result of writing the request to the proxy connection, the
  result of \<^verbatim>\<open>http.ReadResponse\<close>, the identity of the pipe that \<^verbatim>\<open>io.Pipe\<close>
  creates, and the result of the transport's \<^verbatim>\<open>RoundTrip\<close>.
\<close>

record client_env =
  Write_result :: "error option"
  ReadResponse_result :: "error + response"
  Pipe_id :: nat
  RoundTrip_result :: "request \<Rightarrow> Header \<Rightarrow> error + response"

record h1Dialer =
  proxyAddr :: string
  proxyHost :: string
  useTLS :: bool
  tlsConfig :: "tls_Config option"
  header :: Header
  dial :: DialFunc

record bufferedConn =
  bc_Conn :: conn

datatype dialed = Dialed_bufferedConn bufferedConn | Dialed_streamConnRW streamConnRW

definition Errorf_w :: "error \<Rightarrow> string \<Rightarrow> error" where
  "Errorf_w w rest = Wrapped w (Error w @ '': '' @ rest)"

definition upgrade_tls :: "h1Dialer \<Rightarrow> conn \<Rightarrow> conn" where
  "upgrade_tls d c =
     (if useTLS d then
        TLSClient c
          (case tlsConfig d of
             None \<Rightarrow> \<lparr>ServerName = proxyHost d\<rparr>
           | Some t \<Rightarrow> if ServerName t = [] then t\<lparr>ServerName := proxyHost d\<rparr> else t)
      else c)"

definition h1Dialer_DialContext ::
  "client_env \<Rightarrow> h1Dialer \<Rightarrow> string \<Rightarrow> string \<Rightarrow> (error + dialed) \<times> client_event list" where
  "h1Dialer_DialContext e d network address =
     (if \<not> HasPrefix network ''tcp''
      then (Inl (ErrorString (''connecttunnel: unsupported network: '' @ network)), [])
      else
        (case dial d network (proxyAddr d) of
           Inl err \<Rightarrow> (Inl (Errorf_w ErrProxyConnect (Error err)),
                         [ProxyDialed network (proxyAddr d)])
         | Inr c0 \<Rightarrow>
             (let c = upgrade_tls d c0 in
              (case Write_result e of
                 Some err \<Rightarrow>
                   (Inl (Errorf_w ErrProxyConnect (''failed to write request: '' @ Error err)),
                    [ProxyDialed network (proxyAddr d), RequestWritten c, Closed c])
               | None \<Rightarrow>
                   (case ReadResponse_result e of
                      Inl err \<Rightarrow>
                        (Inl (Errorf_w ErrProxyConnect
                                (''failed to read response: '' @ Error err)),
                         [ProxyDialed network (proxyAddr d), RequestWritten c,
                          ReadResponseCalled c, Closed c])
                    | Inr resp \<Rightarrow>
                        (if StatusCode resp \<noteq> 200
                         then (Inl (ProxyError (StatusCode resp) (Status resp) []),
                               [ProxyDialed network (proxyAddr d), RequestWritten c,
                                ReadResponseCalled c, Closed (Body resp), Closed c])
                         else (Inr (Dialed_bufferedConn \<lparr>bc_Conn = c\<rparr>),
                               [ProxyDialed network (proxyAddr d), RequestWritten c,
                                ReadResponseCalled c, Closed (Body resp)])))))))"

text \<open>
  The HTTP/2 dialer and the h2c dialer are the same struct with the same
  \<open>DialContext\<close>; they differ in the transport they hold, of which \<open>AllowHTTP\<close> is
  kept here (set by \<^verbatim>\<open>NewH2CDialer\<close>, unset by \<^verbatim>\<open>NewH2Dialer\<close>). The request
  literal of \<open>DialContext\<close> leaves \<open>RequestURI\<close> and \<open>ProtoMajor\<close> at their zero
  values.
\<close>

record h2Dialer =
  proxyURL :: string
  AllowHTTP :: bool
  headerFunc :: "(request \<Rightarrow> error + Header) option"

definition h2_round_trip ::
  "client_env \<Rightarrow> request \<Rightarrow> Header \<Rightarrow> string \<Rightarrow> (error + dialed) \<times> client_event list" where
  "h2_round_trip e req hs address =
     (case RoundTrip_result e req hs of
        Inl err \<Rightarrow>
          (Inl (Errorf_w ErrProxyConnect (Error err)),
           [RoundTripCalled req hs, Closed (PipeReader (Pipe_id e)),
            Closed (PipeWriter (Pipe_id e))])
      | Inr resp \<Rightarrow>
          (if StatusCode resp \<noteq> 200
           then (Inl (ProxyError (StatusCode resp) (Status resp) []),
                 [RoundTripCalled req hs, Closed (Body resp), Closed (PipeReader (Pipe_id e)),
                  Closed (PipeWriter (Pipe_id e))])
           else (Inr (Dialed_streamConnRW
                        \<lparr>rwc = \<lparr>reader = Body resp, writer = PipeWriter (Pipe_id e),
                                pr = PipeReader (Pipe_id e), pw = PipeWriter (Pipe_id e)\<rparr>,
                         sc_addr = Addr_remoteAddr \<lparr>addr = address\<rparr>\<rparr>),
                 [RoundTripCalled req hs])))"

definition h2Dialer_DialContext ::
  "client_env \<Rightarrow> h2Dialer \<Rightarrow> string \<Rightarrow> string \<Rightarrow> (error + dialed) \<times> client_event list" where
  "h2Dialer_DialContext e d network address =
     (if \<not> HasPrefix network ''tcp''
      then (Inl (ErrorString (''connecttunnel: unsupported network: '' @ network)), [])
      else
        (let req = \<lparr>Method = MethodConnect, RequestURI = [], Host = address, ProtoMajor = 0\<rparr>
         in case headerFunc d of
              Some f \<Rightarrow>
                (case f req of
                   Inl err \<Rightarrow>
                     (Inl (Errorf_w ErrProxyConnect
                             (''failed to get additional headers: '' @ Error err)),
                      [PipeCreated (Pipe_id e), HeaderFuncCalled,
                       Closed (PipeReader (Pipe_id e)), Closed (PipeWriter (Pipe_id e))])
                 | Inr addlHeaders \<Rightarrow>
                     (fst (h2_round_trip e req addlHeaders address),
                      PipeCreated (Pipe_id e) # HeaderFuncCalled #
                      snd (h2_round_trip e req addlHeaders address)))
            | None \<Rightarrow>
                (fst (h2_round_trip e req [] address),
                 PipeCreated (Pipe_id e) # snd (h2_round_trip e req [] address))))"

definition round_trip_gives :: "response \<Rightarrow> request \<Rightarrow> Header \<Rightarrow> error + response" where
  "round_trip_gives resp req hs = Inr resp"

fun contacts_proxy :: "client_event \<Rightarrow> bool" where
  "contacts_proxy (ProxyDialed network address) = True"
| "contacts_proxy (RoundTripCalled req hs) = True"
| "contacts_proxy ev = False"

text \<open>A close function that fails on one handle and succeeds on every other.\<close>

definition close_fails_on :: "conn \<Rightarrow> error \<Rightarrow> conn \<Rightarrow> error option" where
  "close_fails_on x err c = (if c = x then Some err else None)"

section \<open>Copy task of the HTTP/2 relay: upstream to response writer\<close>







section \<open>Server handshakes: rejection by the authorization callback\<close>

lemmas serve_defs = h1Handler_ServeHTTP_def h2Handler_ServeHTTP_def unifiedHandler_ServeHTTP_def
  h1_hijack_def h1_respond_def h2_respond_def checkTunnel_def

lemmas fixture_defs = dial_to_def dial_fails_def reject_all_def accept_all_def
  NewHandler_def NewH1Handler_def NewH2Handler_def emptyServerConfig_def getDialFunc_def
  getLogger_def MethodConnect_def Let_def

lemma h1_rejected:
  "OnTunnelCalled (Some err) \<in> set (h1Handler_ServeHTTP e h w req) \<Longrightarrow>
   statuses (h1Handler_ServeHTTP e h w req) = [403] \<and>
   (\<forall>ev\<in>set (h1Handler_ServeHTTP e h w req). \<not> is_dial ev)"
  by (auto simp: serve_defs split: if_splits option.splits sum.splits prod.splits)

lemma h2_rejected:
  "OnTunnelCalled (Some err) \<in> set (h2Handler_ServeHTTP e h w req) \<Longrightarrow>
   statuses (h2Handler_ServeHTTP e h w req) = [403] \<and>
   (\<forall>ev\<in>set (h2Handler_ServeHTTP e h w req). \<not> is_dial ev)"
  by (auto simp: serve_defs split: if_splits option.splits sum.splits prod.splits)

lemma h1_rejected_trace:
  "Method req = MethodConnect \<Longrightarrow> RequestURI req \<noteq> [] \<Longrightarrow> RequestURI req \<noteq> ''/'' \<Longrightarrow>
   h1_cfg h = Some c \<Longrightarrow> OnTunnel c = Some f \<Longrightarrow> f req = Some err \<Longrightarrow>
   h1Handler_ServeHTTP e h w req =
     [OnTunnelCalled (Some err), LogPrintf (getLogger c) (''tunnel rejected: '' @ Error err),
      HttpError ''Forbidden'' 403]"
  by (simp add: serve_defs)

lemma h2_rejected_trace:
  "ProtoMajor req = 2 \<Longrightarrow> Method req = MethodConnect \<Longrightarrow> Host req \<noteq> [] \<Longrightarrow>
   h2_cfg h = Some c \<Longrightarrow> OnTunnel c = Some f \<Longrightarrow> f req = Some err \<Longrightarrow>
   h2Handler_ServeHTTP e h w req =
     [OnTunnelCalled (Some err), LogPrintf (getLogger c) (''tunnel rejected: '' @ Error err),
      HttpError ''Forbidden'' 403]"
  by (simp add: serve_defs)

text \<open>
  C1. In both server handshakes, whenever the authorization callback has been invoked and
  has returned a non-nil error, the only status written is 403 and the run contains no call
  of the upstream dial function.
\<close>

theorem auth_rejection_403:
  "(OnTunnelCalled (Some err) \<in> set (h1Handler_ServeHTTP e h w req) \<longrightarrow>
      statuses (h1Handler_ServeHTTP e h w req) = [403] \<and>
      (\<forall>ev\<in>set (h1Handler_ServeHTTP e h w req). \<not> is_dial ev)) \<and>
   (OnTunnelCalled (Some err) \<in> set (h2Handler_ServeHTTP e h' w req) \<longrightarrow>
      statuses (h2Handler_ServeHTTP e h' w req) = [403] \<and>
      (\<forall>ev\<in>set (h2Handler_ServeHTTP e h' w req). \<not> is_dial ev))"
  using h1_rejected h2_rejected by blast

theorem auth_rejection_403_witness:
  "OnTunnelCalled (Some (ErrorString ''access denied'')) \<in>
     set (h1Handler_ServeHTTP \<lparr>net_Dialer = dial_to (NetConn 1)\<rparr>
       (NewH1Handler (Some \<lparr>OnTunnel = Some (reject_all (ErrorString ''access denied'')),
          Dial = Some (dial_to (NetConn 2)), ErrorLog = None\<rparr>))
       \<lparr>Hijacker = Some (Inr (NetConn 0)), WriteString_result = None, Flush_result = None,
        EnableFullDuplex_result = None, rc_Flush_result = None\<rparr>
       \<lparr>Method = ''CONNECT'', RequestURI = ''example.com:80'', Host = ''example.com:80'',
        ProtoMajor = 1\<rparr>) \<and>
   statuses (h1Handler_ServeHTTP \<lparr>net_Dialer = dial_to (NetConn 1)\<rparr>
       (NewH1Handler (Some \<lparr>OnTunnel = Some (reject_all (ErrorString ''access denied'')),
          Dial = Some (dial_to (NetConn 2)), ErrorLog = None\<rparr>))
       \<lparr>Hijacker = Some (Inr (NetConn 0)), WriteString_result = None, Flush_result = None,
        EnableFullDuplex_result = None, rc_Flush_result = None\<rparr>
       \<lparr>Method = ''CONNECT'', RequestURI = ''example.com:80'', Host = ''example.com:80'',
        ProtoMajor = 1\<rparr>) = [403] \<and>
   OnTunnelCalled (Some (ErrorString ''access denied'')) \<in>
     set (h2Handler_ServeHTTP \<lparr>net_Dialer = dial_to (NetConn 1)\<rparr>
       (NewH2Handler (Some \<lparr>OnTunnel = Some (reject_all (ErrorString ''access denied'')),
          Dial = Some (dial_to (NetConn 2)), ErrorLog = None\<rparr>))
       \<lparr>Hijacker = None, WriteString_result = None, Flush_result = None,
        EnableFullDuplex_result = None, rc_Flush_result = None\<rparr>
       \<lparr>Method = ''CONNECT'', RequestURI = [], Host = ''example.com:80'',
        ProtoMajor = 2\<rparr>) \<and>
   statuses (h2Handler_ServeHTTP \<lparr>net_Dialer = dial_to (NetConn 1)\<rparr>
       (NewH2Handler (Some \<lparr>OnTunnel = Some (reject_all (ErrorString ''access denied'')),
          Dial = Some (dial_to (NetConn 2)), ErrorLog = None\<rparr>))
       \<lparr>Hijacker = None, WriteString_result = None, Flush_result = None,
        EnableFullDuplex_result = None, rc_Flush_result = None\<rparr>
       \<lparr>Method = ''CONNECT'', RequestURI = [], Host = ''example.com:80'',
        ProtoMajor = 2\<rparr>) = [403]"
  using auth_rejection_403 [of "ErrorString ''access denied''"
      "\<lparr>net_Dialer = dial_to (NetConn 1)\<rparr>"
      "NewH1Handler (Some \<lparr>OnTunnel = Some (reject_all (ErrorString ''access denied'')),
          Dial = Some (dial_to (NetConn 2)), ErrorLog = None\<rparr>)"
      "\<lparr>Hijacker = Some (Inr (NetConn 0)), WriteString_result = None, Flush_result = None,
        EnableFullDuplex_result = None, rc_Flush_result = None\<rparr>"
      "\<lparr>Method = ''CONNECT'', RequestURI = ''example.com:80'', Host = ''example.com:80'',
        ProtoMajor = 1\<rparr>"]
    auth_rejection_403 [of "ErrorString ''access denied''"
      "\<lparr>net_Dialer = dial_to (NetConn 1)\<rparr>" _
      "\<lparr>Hijacker = None, WriteString_result = None, Flush_result = None,
        EnableFullDuplex_result = None, rc_Flush_result = None\<rparr>"
      "\<lparr>Method = ''CONNECT'', RequestURI = [], Host = ''example.com:80'',
        ProtoMajor = 2\<rparr>"
      "NewH2Handler (Some \<lparr>OnTunnel = Some (reject_all (ErrorString ''access denied'')),
          Dial = Some (dial_to (NetConn 2)), ErrorLog = None\<rparr>)"]
  by (simp add: serve_defs fixture_defs)

section \<open>Unified dispatch: method check and routing\<close>

text \<open>
  C3. A request to the unified handler whose method is not CONNECT gets status 405 and
  nothing else happens: the run consists of that one response, so neither the authorization
  callback nor the dial function is called; and the run does not depend on the protocol
  major version of the request.
\<close>

theorem unified_non_connect_405:
  "Method req \<noteq> MethodConnect \<Longrightarrow>
   unifiedHandler_ServeHTTP e h w req = [HttpError ''Method not allowed'' 405] \<and>
   statuses (unifiedHandler_ServeHTTP e h w req) = [405] \<and>
   (\<forall>ev\<in>set (unifiedHandler_ServeHTTP e h w req). \<not> is_auth ev \<and> \<not> is_dial ev) \<and>
   unifiedHandler_ServeHTTP e h w (req\<lparr>ProtoMajor := v\<rparr>) = unifiedHandler_ServeHTTP e h w req"
  by (simp add: unifiedHandler_ServeHTTP_def)

theorem unified_non_connect_405_witness:
  "Method \<lparr>Method = ''GET'', RequestURI = ''/'', Host = ''example.com'', ProtoMajor = 2\<rparr>
     \<noteq> MethodConnect \<and>
   unifiedHandler_ServeHTTP \<lparr>net_Dialer = dial_to (NetConn 1)\<rparr>
     (NewHandler (Some \<lparr>OnTunnel = Some accept_all, Dial = Some (dial_to (NetConn 2)),
        ErrorLog = None\<rparr>))
     \<lparr>Hijacker = Some (Inr (NetConn 0)), WriteString_result = None, Flush_result = None,
      EnableFullDuplex_result = None, rc_Flush_result = None\<rparr>
     \<lparr>Method = ''GET'', RequestURI = ''/'', Host = ''example.com'', ProtoMajor = 2\<rparr>
   = [HttpError ''Method not allowed'' 405]"
  using unified_non_connect_405 [of
     "\<lparr>Method = ''GET'', RequestURI = ''/'', Host = ''example.com'', ProtoMajor = 2\<rparr>"
     "\<lparr>net_Dialer = dial_to (NetConn 1)\<rparr>"
     "NewHandler (Some \<lparr>OnTunnel = Some accept_all, Dial = Some (dial_to (NetConn 2)),
        ErrorLog = None\<rparr>)"
     "\<lparr>Hijacker = Some (Inr (NetConn 0)), WriteString_result = None, Flush_result = None,
      EnableFullDuplex_result = None, rc_Flush_result = None\<rparr>" 2]
  by (simp add: MethodConnect_def)

text \<open>
  C8, as stated, fails: a CONNECT request with protocol major version 3 is handed to the
  HTTP/1.1 handshake (which hijacks the connection), not to the HTTP/2 handshake (which
  would have answered 505).
\<close>

theorem dispatch_other_major_counterexample:
  "ProtoMajor \<lparr>Method = ''CONNECT'', RequestURI = ''example.com:80'', Host = ''example.com:80'',
      ProtoMajor = 3\<rparr> \<noteq> 1 \<and>
   unifiedHandler_ServeHTTP \<lparr>net_Dialer = dial_to (NetConn 1)\<rparr> (NewHandler None)
     \<lparr>Hijacker = Some (Inr (NetConn 0)), WriteString_result = None, Flush_result = None,
      EnableFullDuplex_result = None, rc_Flush_result = None\<rparr>
     \<lparr>Method = ''CONNECT'', RequestURI = ''example.com:80'', Host = ''example.com:80'',
      ProtoMajor = 3\<rparr>
   = [DialCalled ViaNetDialer ''tcp'' ''example.com:80'', HijackCalled,
      BufWriteString established, BufFlush, GoTunnel (NetConn 0) (NetConn 1)] \<and>
   h1Handler_ServeHTTP \<lparr>net_Dialer = dial_to (NetConn 1)\<rparr> (h1 (NewHandler None))
     \<lparr>Hijacker = Some (Inr (NetConn 0)), WriteString_result = None, Flush_result = None,
      EnableFullDuplex_result = None, rc_Flush_result = None\<rparr>
     \<lparr>Method = ''CONNECT'', RequestURI = ''example.com:80'', Host = ''example.com:80'',
      ProtoMajor = 3\<rparr>
   = [DialCalled ViaNetDialer ''tcp'' ''example.com:80'', HijackCalled,
      BufWriteString established, BufFlush, GoTunnel (NetConn 0) (NetConn 1)] \<and>
   h2Handler_ServeHTTP \<lparr>net_Dialer = dial_to (NetConn 1)\<rparr> (h2 (NewHandler None))
     \<lparr>Hijacker = Some (Inr (NetConn 0)), WriteString_result = None, Flush_result = None,
      EnableFullDuplex_result = None, rc_Flush_result = None\<rparr>
     \<lparr>Method = ''CONNECT'', RequestURI = ''example.com:80'', Host = ''example.com:80'',
      ProtoMajor = 3\<rparr>
   = [HttpError ''HTTP/2 required'' 505]"
  by (simp add: serve_defs fixture_defs)

text \<open>
  C8, amended. For every CONNECT request, the unified dispatch hands the request to the
  HTTP/2 handshake if its protocol major version is 2, and to the HTTP/1.1 handshake for
  every other protocol major version; in the second case the two handshakes would have
  answered differently.
\<close>

theorem dispatch_by_major_version:
  "Method req = MethodConnect \<Longrightarrow>
   (ProtoMajor req = 2 \<longrightarrow>
      unifiedHandler_ServeHTTP e h w req = h2Handler_ServeHTTP e (h2 h) w req) \<and>
   (ProtoMajor req \<noteq> 2 \<longrightarrow>
      unifiedHandler_ServeHTTP e h w req = h1Handler_ServeHTTP e (h1 h) w req \<and>
      h2Handler_ServeHTTP e (h2 h) w req = [HttpError ''HTTP/2 required'' 505] \<and>
      h1Handler_ServeHTTP e (h1 h) w req \<noteq> [HttpError ''HTTP/2 required'' 505])"
  by (auto simp: serve_defs split: option.splits sum.splits prod.splits if_splits)

theorem dispatch_by_major_version_witness:
  "Method \<lparr>Method = ''CONNECT'', RequestURI = ''example.com:80'', Host = ''example.com:80'',
      ProtoMajor = 2\<rparr> = MethodConnect \<and>
   unifiedHandler_ServeHTTP \<lparr>net_Dialer = dial_to (NetConn 1)\<rparr> (NewHandler None)
     \<lparr>Hijacker = None, WriteString_result = None, Flush_result = None,
      EnableFullDuplex_result = None, rc_Flush_result = None\<rparr>
     \<lparr>Method = ''CONNECT'', RequestURI = ''example.com:80'', Host = ''example.com:80'',
      ProtoMajor = 2\<rparr> =
   h2Handler_ServeHTTP \<lparr>net_Dialer = dial_to (NetConn 1)\<rparr> (h2 (NewHandler None))
     \<lparr>Hijacker = None, WriteString_result = None, Flush_result = None,
      EnableFullDuplex_result = None, rc_Flush_result = None\<rparr>
     \<lparr>Method = ''CONNECT'', RequestURI = ''example.com:80'', Host = ''example.com:80'',
      ProtoMajor = 2\<rparr> \<and>
   unifiedHandler_ServeHTTP \<lparr>net_Dialer = dial_to (NetConn 1)\<rparr> (NewHandler None)
     \<lparr>Hijacker = Some (Inr (NetConn 0)), WriteString_result = None, Flush_result = None,
      EnableFullDuplex_result = None, rc_Flush_result = None\<rparr>
     \<lparr>Method = ''CONNECT'', RequestURI = ''example.com:80'', Host = ''example.com:80'',
      ProtoMajor = 1\<rparr> =
   h1Handler_ServeHTTP \<lparr>net_Dialer = dial_to (NetConn 1)\<rparr> (h1 (NewHandler None))
     \<lparr>Hijacker = Some (Inr (NetConn 0)), WriteString_result = None, Flush_result = None,
      EnableFullDuplex_result = None, rc_Flush_result = None\<rparr>
     \<lparr>Method = ''CONNECT'', RequestURI = ''example.com:80'', Host = ''example.com:80'',
      ProtoMajor = 1\<rparr>"
  using dispatch_by_major_version [of
     "\<lparr>Method = ''CONNECT'', RequestURI = ''example.com:80'', Host = ''example.com:80'',
      ProtoMajor = 2\<rparr>"
     "\<lparr>net_Dialer = dial_to (NetConn 1)\<rparr>" "NewHandler None"
     "\<lparr>Hijacker = None, WriteString_result = None, Flush_result = None,
      EnableFullDuplex_result = None, rc_Flush_result = None\<rparr>"]
    dispatch_by_major_version [of
     "\<lparr>Method = ''CONNECT'', RequestURI = ''example.com:80'', Host = ''example.com:80'',
      ProtoMajor = 1\<rparr>"
     "\<lparr>net_Dialer = dial_to (NetConn 1)\<rparr>" "NewHandler None"
     "\<lparr>Hijacker = Some (Inr (NetConn 0)), WriteString_result = None, Flush_result = None,
      EnableFullDuplex_result = None, rc_Flush_result = None\<rparr>"]
  by (simp add: MethodConnect_def)

section \<open>HTTP/1.1 handshake: the response after the hijack\<close>

lemma h1_hijack_path:
  "HijackCalled \<in> set (h1Handler_ServeHTTP e h w req) \<Longrightarrow>
   \<exists>c upstream. h1_cfg h = Some c \<and>
     call_dial e (getDialFunc c) ''tcp'' (RequestURI req) = Inr upstream \<and>
     h1Handler_ServeHTTP e h w req =
       snd (checkTunnel c req) @
       DialCalled (kind_of (getDialFunc c)) ''tcp'' (RequestURI req) # h1_hijack c w upstream"
  by (auto simp: h1Handler_ServeHTTP_def checkTunnel_def
      split: if_splits option.splits sum.splits prod.splits)

lemma checkTunnel_events: "\<forall>ev\<in>set (snd (checkTunnel c req)). is_auth ev"
  by (simp add: checkTunnel_def split: option.splits)

lemma written_auth: "\<forall>ev\<in>set evs. is_auth ev \<or> is_dial ev \<Longrightarrow> written (evs @ rest) = written rest"
proof (induction evs)
  case Nil
  then show ?case by simp
next
  case (Cons ev evs)
  then show ?case by (cases ev) simp_all
qed

text \<open>
  C4. In the HTTP/1.1 handshake, after a successful hijack the run continues with the
  write of the literal line \<^verbatim>\<open>HTTP/1.1 200 Connection Established\<close> followed by an
  empty line, which is the only string written, and then, if the write succeeded, with the
  flush. If the write or the flush fails, the hijacked connection and the upstream
  connection are both closed and no relay is started; otherwise the relay is started.
\<close>

theorem h1_established_response:
  assumes "HijackCalled \<in> set (h1Handler_ServeHTTP e h w req)"
    and "Hijacker w = Some (Inr client)"
  shows "\<exists>pre c upstream.
     h1_cfg h = Some c \<and>
     call_dial e (getDialFunc c) ''tcp'' (RequestURI req) = Inr upstream \<and>
     (\<forall>ev\<in>set pre. is_auth ev \<or> is_dial ev) \<and>
     h1Handler_ServeHTTP e h w req =
       pre @ [HijackCalled,
              BufWriteString (''HTTP/1.1 200 Connection Established'' @
                              [CHR 0x0D, CHR 0x0A, CHR 0x0D, CHR 0x0A])] @
       (case WriteString_result w of
          Some err \<Rightarrow>
            [ConnClose client, ConnClose upstream,
             LogPrintf (getLogger c) (''failed to write response: '' @ Error err)]
        | None \<Rightarrow>
            BufFlush #
            (case Flush_result w of
               Some err \<Rightarrow>
                 [ConnClose client, ConnClose upstream,
                  LogPrintf (getLogger c) (''failed to flush response: '' @ Error err)]
             | None \<Rightarrow> [GoTunnel client upstream])) \<and>
     written (h1Handler_ServeHTTP e h w req) =
       [''HTTP/1.1 200 Connection Established'' @ [CHR 0x0D, CHR 0x0A, CHR 0x0D, CHR 0x0A]] \<and>
     (WriteString_result w \<noteq> None \<or> Flush_result w \<noteq> None \<longrightarrow>
        ConnClose client \<in> set (h1Handler_ServeHTTP e h w req) \<and>
        ConnClose upstream \<in> set (h1Handler_ServeHTTP e h w req) \<and>
        (\<forall>ev\<in>set (h1Handler_ServeHTTP e h w req). \<not> is_tunnel ev))"
proof -
  from assms(1) obtain c upstream where c: "h1_cfg h = Some c"
    and up: "call_dial e (getDialFunc c) ''tcp'' (RequestURI req) = Inr upstream"
    and tr: "h1Handler_ServeHTTP e h w req =
       snd (checkTunnel c req) @
       DialCalled (kind_of (getDialFunc c)) ''tcp'' (RequestURI req) # h1_hijack c w upstream"
    using h1_hijack_path by blast
  define pre where
    "pre = snd (checkTunnel c req) @ [DialCalled (kind_of (getDialFunc c)) ''tcp'' (RequestURI req)]"
  have pre: "\<forall>ev\<in>set pre. is_auth ev \<or> is_dial ev"
    using checkTunnel_events [of c req] by (auto simp: pre_def)
  have tr': "h1Handler_ServeHTTP e h w req = pre @ h1_hijack c w upstream"
    by (simp add: tr pre_def)
  have hj: "h1_hijack c w upstream = HijackCalled # h1_respond c w client upstream"
    by (simp add: h1_hijack_def assms(2))
  have wr: "written (h1Handler_ServeHTTP e h w req) = written (h1_hijack c w upstream)"
    unfolding tr' using pre by (rule written_auth)
  have not_tunnel: "\<forall>ev\<in>set pre. \<not> is_tunnel ev"
  proof
    fix ev assume "ev \<in> set pre"
    with pre have "is_auth ev \<or> is_dial ev" by blast
    then show "\<not> is_tunnel ev" by (cases ev) simp_all
  qed
  show ?thesis
    apply (rule exI [of _ pre], rule exI [of _ c], rule exI [of _ upstream])
    apply (intro conjI)
         apply (rule c)
        apply (rule up)
       apply (rule pre)
      apply (simp add: tr' hj h1_respond_def established_def CRLF_def)
     apply (simp add: wr hj h1_respond_def established_def CRLF_def split: option.splits)
    using not_tunnel
    apply (auto simp: tr' hj h1_respond_def split: option.splits)
    done
qed

theorem h1_established_response_witness:
  "HijackCalled \<in> set (h1Handler_ServeHTTP \<lparr>net_Dialer = dial_to (NetConn 1)\<rparr>
       (NewH1Handler None)
       \<lparr>Hijacker = Some (Inr (NetConn 0)), WriteString_result = None,
        Flush_result = Some (ErrorString ''broken pipe''),
        EnableFullDuplex_result = None, rc_Flush_result = None\<rparr>
       \<lparr>Method = ''CONNECT'', RequestURI = ''example.com:80'', Host = ''example.com:80'',
        ProtoMajor = 1\<rparr>) \<and>
   h1Handler_ServeHTTP \<lparr>net_Dialer = dial_to (NetConn 1)\<rparr>
       (NewH1Handler None)
       \<lparr>Hijacker = Some (Inr (NetConn 0)), WriteString_result = None,
        Flush_result = Some (ErrorString ''broken pipe''),
        EnableFullDuplex_result = None, rc_Flush_result = None\<rparr>
       \<lparr>Method = ''CONNECT'', RequestURI = ''example.com:80'', Host = ''example.com:80'',
        ProtoMajor = 1\<rparr> =
     [DialCalled ViaNetDialer ''tcp'' ''example.com:80'', HijackCalled,
      BufWriteString (''HTTP/1.1 200 Connection Established'' @
                      [CHR 0x0D, CHR 0x0A, CHR 0x0D, CHR 0x0A]),
      BufFlush, ConnClose (NetConn 0), ConnClose (NetConn 1),
      LogPrintf log_Default ''failed to flush response: broken pipe'']"
  using h1_established_response [of "\<lparr>net_Dialer = dial_to (NetConn 1)\<rparr>"
       "NewH1Handler None"
       "\<lparr>Hijacker = Some (Inr (NetConn 0)), WriteString_result = None,
        Flush_result = Some (ErrorString ''broken pipe''),
        EnableFullDuplex_result = None, rc_Flush_result = None\<rparr>"
       "\<lparr>Method = ''CONNECT'', RequestURI = ''example.com:80'', Host = ''example.com:80'',
        ProtoMajor = 1\<rparr>" "NetConn 0"]
  by (simp add: serve_defs fixture_defs established_def CRLF_def)

section \<open>Defaults of the server configuration\<close>










section \<open>Client dialers: rejection by the proxy\<close>

lemmas client_defs = h1Dialer_DialContext_def h2Dialer_DialContext_def h2_round_trip_def
  Let_def

lemma h1_response_path:
  "ReadResponseCalled c \<in> set (snd (h1Dialer_DialContext e d network address)) \<Longrightarrow>
   \<exists>c0. dial d network (proxyAddr d) = Inr c0 \<and> c = upgrade_tls d c0 \<and>
     HasPrefix network ''tcp'' \<and> Write_result e = None"
  by (auto simp: client_defs split: if_splits sum.splits option.splits)

lemma h2_response_path:
  "RoundTripCalled req hs \<in> set (snd (h2Dialer_DialContext e d network address)) \<Longrightarrow>
   h2Dialer_DialContext e d network address =
     (fst (h2_round_trip e req hs address),
      PipeCreated (Pipe_id e) #
      (if headerFunc d = None then [] else [HeaderFuncCalled]) @
      snd (h2_round_trip e req hs address))"
  by (auto simp: client_defs split: if_splits sum.splits option.splits)

text \<open>
  C2. When the HTTP/1.1 dialer has read a response, or the HTTP/2 dialer's round trip has
  returned one, and its status code is not 200, \<open>DialContext\<close> returns the
  \<open>ProxyError\<close> with that status code and status line and no connection. In the
  HTTP/1.1 run the response body and the proxy connection (the dialled socket, under TLS
  when the dialer uses it) are closed; in the HTTP/2 run the response body and both ends
  of the pipe are closed.
\<close>

theorem non_200_gives_ProxyError:
  "(ReadResponseCalled c \<in> set (snd (h1Dialer_DialContext e d network address)) \<and>
    ReadResponse_result e = Inr resp \<and> StatusCode resp \<noteq> 200 \<longrightarrow>
      fst (h1Dialer_DialContext e d network address) =
        Inl (ProxyError (StatusCode resp) (Status resp) []) \<and>
      (\<exists>c0. dial d network (proxyAddr d) = Inr c0 \<and> c = upgrade_tls d c0) \<and>
      snd (h1Dialer_DialContext e d network address) =
        [ProxyDialed network (proxyAddr d), RequestWritten c, ReadResponseCalled c,
         Closed (Body resp), Closed c]) \<and>
   (RoundTripCalled req hs \<in> set (snd (h2Dialer_DialContext e d' network address)) \<and>
    RoundTrip_result e req hs = Inr resp' \<and> StatusCode resp' \<noteq> 200 \<longrightarrow>
      fst (h2Dialer_DialContext e d' network address) =
        Inl (ProxyError (StatusCode resp') (Status resp') []) \<and>
      snd (h2Dialer_DialContext e d' network address) =
        PipeCreated (Pipe_id e) # (if headerFunc d' = None then [] else [HeaderFuncCalled]) @
        [RoundTripCalled req hs, Closed (Body resp'), Closed (PipeReader (Pipe_id e)),
         Closed (PipeWriter (Pipe_id e))])"
proof (intro conjI impI)
  assume a: "ReadResponseCalled c \<in> set (snd (h1Dialer_DialContext e d network address)) \<and>
    ReadResponse_result e = Inr resp \<and> StatusCode resp \<noteq> 200"
  then obtain c0 where c0: "dial d network (proxyAddr d) = Inr c0" "c = upgrade_tls d c0"
    "HasPrefix network ''tcp''" "Write_result e = None"
    using h1_response_path by blast
  show "fst (h1Dialer_DialContext e d network address) =
        Inl (ProxyError (StatusCode resp) (Status resp) [])"
    using a c0 by (simp add: client_defs)
  show "\<exists>c0. dial d network (proxyAddr d) = Inr c0 \<and> c = upgrade_tls d c0"
    using c0 by blast
  show "snd (h1Dialer_DialContext e d network address) =
        [ProxyDialed network (proxyAddr d), RequestWritten c, ReadResponseCalled c,
         Closed (Body resp), Closed c]"
    using a c0 by (simp add: client_defs)
next
  assume a: "RoundTripCalled req hs \<in> set (snd (h2Dialer_DialContext e d' network address)) \<and>
    RoundTrip_result e req hs = Inr resp' \<and> StatusCode resp' \<noteq> 200"
  then have eq: "h2Dialer_DialContext e d' network address =
     (fst (h2_round_trip e req hs address),
      PipeCreated (Pipe_id e) #
      (if headerFunc d' = None then [] else [HeaderFuncCalled]) @
      snd (h2_round_trip e req hs address))"
    using h2_response_path by blast
  show "fst (h2Dialer_DialContext e d' network address) =
        Inl (ProxyError (StatusCode resp') (Status resp') [])"
    using a by (simp add: eq h2_round_trip_def)
  show "snd (h2Dialer_DialContext e d' network address) =
        PipeCreated (Pipe_id e) # (if headerFunc d' = None then [] else [HeaderFuncCalled]) @
        [RoundTripCalled req hs, Closed (Body resp'), Closed (PipeReader (Pipe_id e)),
         Closed (PipeWriter (Pipe_id e))]"
    using a by (simp add: eq h2_round_trip_def)
qed

theorem non_200_gives_ProxyError_witness:
  "ReadResponseCalled (NetConn 7) \<in> set (snd (h1Dialer_DialContext
     \<lparr>Write_result = None,
      ReadResponse_result =
        Inr \<lparr>StatusCode = 403, Status = ''403 Forbidden'', Body = ResponseBody 0\<rparr>,
      Pipe_id = 0,
      RoundTrip_result =
        round_trip_gives \<lparr>StatusCode = 403, Status = ''403 Forbidden'', Body = ResponseBody 1\<rparr>\<rparr>
     \<lparr>proxyAddr = ''proxy.example.com:80'', proxyHost = ''proxy.example.com'', useTLS = False,
      tlsConfig = None, header = [], dial = dial_to (NetConn 7)\<rparr>
     ''tcp'' ''example.com:80'')) \<and>
   h1Dialer_DialContext
     \<lparr>Write_result = None,
      ReadResponse_result =
        Inr \<lparr>StatusCode = 403, Status = ''403 Forbidden'', Body = ResponseBody 0\<rparr>,
      Pipe_id = 0,
      RoundTrip_result =
        round_trip_gives \<lparr>StatusCode = 403, Status = ''403 Forbidden'', Body = ResponseBody 1\<rparr>\<rparr>
     \<lparr>proxyAddr = ''proxy.example.com:80'', proxyHost = ''proxy.example.com'', useTLS = False,
      tlsConfig = None, header = [], dial = dial_to (NetConn 7)\<rparr>
     ''tcp'' ''example.com:80'' =
   (Inl (ProxyError 403 ''403 Forbidden'' []),
    [ProxyDialed ''tcp'' ''proxy.example.com:80'', RequestWritten (NetConn 7),
     ReadResponseCalled (NetConn 7), Closed (ResponseBody 0), Closed (NetConn 7)]) \<and>
   h2Dialer_DialContext
     \<lparr>Write_result = None,
      ReadResponse_result =
        Inr \<lparr>StatusCode = 403, Status = ''403 Forbidden'', Body = ResponseBody 0\<rparr>,
      Pipe_id = 0,
      RoundTrip_result =
        round_trip_gives \<lparr>StatusCode = 403, Status = ''403 Forbidden'', Body = ResponseBody 1\<rparr>\<rparr>
     \<lparr>proxyURL = ''https://proxy.example.com'', AllowHTTP = False, headerFunc = None\<rparr>
     ''tcp'' ''example.com:80'' =
   (Inl (ProxyError 403 ''403 Forbidden'' []),
    [PipeCreated 0,
     RoundTripCalled \<lparr>Method = ''CONNECT'', RequestURI = [], Host = ''example.com:80'',
                      ProtoMajor = 0\<rparr> [],
     Closed (ResponseBody 1), Closed (PipeReader 0), Closed (PipeWriter 0)])"
  using non_200_gives_ProxyError [of "NetConn 7"
     "\<lparr>Write_result = None,
      ReadResponse_result =
        Inr \<lparr>StatusCode = 403, Status = ''403 Forbidden'', Body = ResponseBody 0\<rparr>,
      Pipe_id = 0,
      RoundTrip_result =
        round_trip_gives \<lparr>StatusCode = 403, Status = ''403 Forbidden'', Body = ResponseBody 1\<rparr>\<rparr>"
     "\<lparr>proxyAddr = ''proxy.example.com:80'', proxyHost = ''proxy.example.com'', useTLS = False,
      tlsConfig = None, header = [], dial = dial_to (NetConn 7)\<rparr>"
     "''tcp''" "''example.com:80''"
     "\<lparr>StatusCode = 403, Status = ''403 Forbidden'', Body = ResponseBody 0\<rparr>"
     "\<lparr>Method = ''CONNECT'', RequestURI = [], Host = ''example.com:80'', ProtoMajor = 0\<rparr>"
     "[]"
     "\<lparr>proxyURL = ''https://proxy.example.com'', AllowHTTP = False, headerFunc = None\<rparr>"
     "\<lparr>StatusCode = 403, Status = ''403 Forbidden'', Body = ResponseBody 1\<rparr>"]
  by (simp add: client_defs HasPrefix_def round_trip_gives_def dial_to_def MethodConnect_def
      upgrade_tls_def)

section \<open>Client dialers: the network argument\<close>

text \<open>
  C7, as stated, fails: the network \<open>tcpx\<close> is none of \<open>tcp\<close>, \<open>tcp4\<close>,
  \<open>tcp6\<close>, yet the HTTP/2 dialer sends its request to the proxy and returns a tunnel,
  and the HTTP/1.1 dialer calls its dial function for the proxy and returns a tunnel.
\<close>

theorem unsupported_network_counterexample:
  "''tcpx'' \<noteq> ''tcp'' \<and> ''tcpx'' \<noteq> ''tcp4'' \<and> ''tcpx'' \<noteq> ''tcp6'' \<and>
   h2Dialer_DialContext
     \<lparr>Write_result = None,
      ReadResponse_result = Inr \<lparr>StatusCode = 200, Status = ''200 OK'', Body = ResponseBody 0\<rparr>,
      Pipe_id = 0,
      RoundTrip_result =
        round_trip_gives \<lparr>StatusCode = 200, Status = ''200 OK'', Body = ResponseBody 0\<rparr>\<rparr>
     \<lparr>proxyURL = ''https://proxy.example.com'', AllowHTTP = False, headerFunc = None\<rparr>
     ''tcpx'' ''example.com:80'' =
   (Inr (Dialed_streamConnRW
          \<lparr>rwc = \<lparr>reader = ResponseBody 0, writer = PipeWriter 0, pr = PipeReader 0,
                  pw = PipeWriter 0\<rparr>,
           sc_addr = Addr_remoteAddr \<lparr>addr = ''example.com:80''\<rparr>\<rparr>),
    [PipeCreated 0,
     RoundTripCalled \<lparr>Method = ''CONNECT'', RequestURI = [], Host = ''example.com:80'',
                      ProtoMajor = 0\<rparr> []]) \<and>
   h1Dialer_DialContext
     \<lparr>Write_result = None,
      ReadResponse_result = Inr \<lparr>StatusCode = 200, Status = ''200 OK'', Body = ResponseBody 0\<rparr>,
      Pipe_id = 0,
      RoundTrip_result =
        round_trip_gives \<lparr>StatusCode = 200, Status = ''200 OK'', Body = ResponseBody 0\<rparr>\<rparr>
     \<lparr>proxyAddr = ''proxy.example.com:80'', proxyHost = ''proxy.example.com'', useTLS = False,
      tlsConfig = None, header = [], dial = dial_to (NetConn 7)\<rparr>
     ''tcpx'' ''example.com:80'' =
   (Inr (Dialed_bufferedConn \<lparr>bc_Conn = NetConn 7\<rparr>),
    [ProxyDialed ''tcpx'' ''proxy.example.com:80'', RequestWritten (NetConn 7),
     ReadResponseCalled (NetConn 7), Closed (ResponseBody 0)])"
  by (simp add: client_defs HasPrefix_def round_trip_gives_def dial_to_def MethodConnect_def
      upgrade_tls_def)

text \<open>
  C7, amended. For every network string that does not begin with \<open>tcp\<close>,
  \<open>DialContext\<close> of the HTTP/1.1 dialer and of the HTTP/2 dialer (which is also the h2c
  dialer) returns the unsupported-network error and makes no call at all, so the proxy is
  not contacted.
\<close>

theorem unsupported_network_rejected:
  "\<not> HasPrefix network ''tcp'' \<Longrightarrow>
   h1Dialer_DialContext e d network address =
     (Inl (ErrorString (''connecttunnel: unsupported network: '' @ network)), []) \<and>
   h2Dialer_DialContext e d' network address =
     (Inl (ErrorString (''connecttunnel: unsupported network: '' @ network)), []) \<and>
   (\<forall>ev\<in>set (snd (h1Dialer_DialContext e d network address)). \<not> contacts_proxy ev) \<and>
   (\<forall>ev\<in>set (snd (h2Dialer_DialContext e d' network address)). \<not> contacts_proxy ev)"
  by (simp add: client_defs)

theorem unsupported_network_rejected_witness:
  "\<not> HasPrefix ''udp'' ''tcp'' \<and>
   h1Dialer_DialContext
     \<lparr>Write_result = None,
      ReadResponse_result = Inr \<lparr>StatusCode = 200, Status = ''200 OK'', Body = ResponseBody 0\<rparr>,
      Pipe_id = 0,
      RoundTrip_result =
        round_trip_gives \<lparr>StatusCode = 200, Status = ''200 OK'', Body = ResponseBody 0\<rparr>\<rparr>
     \<lparr>proxyAddr = ''proxy.example.com:80'', proxyHost = ''proxy.example.com'', useTLS = False,
      tlsConfig = None, header = [], dial = dial_to (NetConn 7)\<rparr>
     ''udp'' ''example.com:80'' =
   (Inl (ErrorString ''connecttunnel: unsupported network: udp''), []) \<and>
   h2Dialer_DialContext
     \<lparr>Write_result = None,
      ReadResponse_result = Inr \<lparr>StatusCode = 200, Status = ''200 OK'', Body = ResponseBody 0\<rparr>,
      Pipe_id = 0,
      RoundTrip_result =
        round_trip_gives \<lparr>StatusCode = 200, Status = ''200 OK'', Body = ResponseBody 0\<rparr>\<rparr>
     \<lparr>proxyURL = ''https://proxy.example.com'', AllowHTTP = False, headerFunc = None\<rparr>
     ''udp'' ''example.com:80'' =
   (Inl (ErrorString ''connecttunnel: unsupported network: udp''), [])"
proof -
  have h: "\<not> HasPrefix ''udp'' ''tcp''" by (simp add: HasPrefix_def)
  show ?thesis
    using h unsupported_network_rejected [OF h] by simp
qed

section \<open>Remote address of HTTP/2 endpoints\<close>

text \<open>
  C9, as stated, fails: the remote address of the endpoint that the HTTP/2 dialer returns
  reports the network name \<open>connecttunnel\<close>, not \<open>tunnel\<close>.
\<close>

theorem remote_addr_counterexample:
  "fst (h2Dialer_DialContext
     \<lparr>Write_result = None,
      ReadResponse_result = Inr \<lparr>StatusCode = 200, Status = ''200 OK'', Body = ResponseBody 0\<rparr>,
      Pipe_id = 0,
      RoundTrip_result =
        round_trip_gives \<lparr>StatusCode = 200, Status = ''200 OK'', Body = ResponseBody 0\<rparr>\<rparr>
     \<lparr>proxyURL = ''https://proxy.example.com'', AllowHTTP = False, headerFunc = None\<rparr>
     ''tcp'' ''example.com:80'') =
   Inr (Dialed_streamConnRW
          \<lparr>rwc = \<lparr>reader = ResponseBody 0, writer = PipeWriter 0, pr = PipeReader 0,
                  pw = PipeWriter 0\<rparr>,
           sc_addr = Addr_remoteAddr \<lparr>addr = ''example.com:80''\<rparr>\<rparr>) \<and>
   streamConnRW_RemoteAddr
     \<lparr>rwc = \<lparr>reader = ResponseBody 0, writer = PipeWriter 0, pr = PipeReader 0,
             pw = PipeWriter 0\<rparr>,
      sc_addr = Addr_remoteAddr \<lparr>addr = ''example.com:80''\<rparr>\<rparr> =
     Addr_remoteAddr \<lparr>addr = ''example.com:80''\<rparr> \<and>
   remoteAddr_Network \<lparr>addr = ''example.com:80''\<rparr> = ''connecttunnel'' \<and>
   remoteAddr_Network \<lparr>addr = ''example.com:80''\<rparr> \<noteq> ''tunnel''"
  by (simp add: client_defs HasPrefix_def round_trip_gives_def MethodConnect_def
      streamConnRW_RemoteAddr_def remoteAddr_Network_def)

text \<open>
  C9, amended. Every endpoint that the HTTP/2 dialer returns is a \<open>streamConnRW\<close> whose
  remote address is a \<open>remoteAddr\<close> that reports the network name \<open>connecttunnel\<close>
  and the requested target as its address string.
\<close>

theorem remote_addr_of_h2_endpoint:
  "fst (h2Dialer_DialContext e d network address) = Inr t \<Longrightarrow>
   \<exists>c a. t = Dialed_streamConnRW c \<and> streamConnRW_RemoteAddr c = Addr_remoteAddr a \<and>
     remoteAddr_Network a = ''connecttunnel'' \<and> remoteAddr_String a = address"
  by (auto simp: client_defs streamConnRW_RemoteAddr_def remoteAddr_Network_def
      remoteAddr_String_def split: if_splits sum.splits option.splits)

theorem remote_addr_of_h2_endpoint_witness:
  "fst (h2Dialer_DialContext
     \<lparr>Write_result = None,
      ReadResponse_result = Inr \<lparr>StatusCode = 200, Status = ''200 OK'', Body = ResponseBody 0\<rparr>,
      Pipe_id = 0,
      RoundTrip_result =
        round_trip_gives \<lparr>StatusCode = 200, Status = ''200 OK'', Body = ResponseBody 0\<rparr>\<rparr>
     \<lparr>proxyURL = ''http://proxy.example.com'', AllowHTTP = True, headerFunc = None\<rparr>
     ''tcp'' ''example.com:80'') =
   Inr (Dialed_streamConnRW
          \<lparr>rwc = \<lparr>reader = ResponseBody 0, writer = PipeWriter 0, pr = PipeReader 0,
                  pw = PipeWriter 0\<rparr>,
           sc_addr = Addr_remoteAddr \<lparr>addr = ''example.com:80''\<rparr>\<rparr>) \<and>
   (\<exists>c a. Dialed_streamConnRW
          \<lparr>rwc = \<lparr>reader = ResponseBody 0, writer = PipeWriter 0, pr = PipeReader 0,
                  pw = PipeWriter 0\<rparr>,
           sc_addr = Addr_remoteAddr \<lparr>addr = ''example.com:80''\<rparr>\<rparr> = Dialed_streamConnRW c \<and>
      streamConnRW_RemoteAddr c = Addr_remoteAddr a \<and>
      remoteAddr_Network a = ''connecttunnel'' \<and> remoteAddr_String a = ''example.com:80'')"
proof -
  have h: "fst (h2Dialer_DialContext
     \<lparr>Write_result = None,
      ReadResponse_result = Inr \<lparr>StatusCode = 200, Status = ''200 OK'', Body = ResponseBody 0\<rparr>,
      Pipe_id = 0,
      RoundTrip_result =
        round_trip_gives \<lparr>StatusCode = 200, Status = ''200 OK'', Body = ResponseBody 0\<rparr>\<rparr>
     \<lparr>proxyURL = ''http://proxy.example.com'', AllowHTTP = True, headerFunc = None\<rparr>
     ''tcp'' ''example.com:80'') =
   Inr (Dialed_streamConnRW
          \<lparr>rwc = \<lparr>reader = ResponseBody 0, writer = PipeWriter 0, pr = PipeReader 0,
                  pw = PipeWriter 0\<rparr>,
           sc_addr = Addr_remoteAddr \<lparr>addr = ''example.com:80''\<rparr>\<rparr>)"
    by (simp add: client_defs HasPrefix_def round_trip_gives_def MethodConnect_def)
  show ?thesis
    using h remote_addr_of_h2_endpoint [OF h] by blast
qed

section \<open>Closing an adapter\<close>

text \<open>
  C6. Closing an adapter whose two sides are distinct handles calls \<open>Close\<close> on both,
  whatever the first call returns, and returns the first error: the error of the first
  close if there is one, otherwise the result of the second; it returns nil exactly when
  both closes succeed. This holds for \<open>h2Conn\<close>, for the \<open>streamConnRW\<close> that wraps
  it, and for \<open>tunnelConn\<close> with an additional closer.
\<close>

theorem close_attempts_both:
  "(reader c \<noteq> writer c \<longrightarrow>
      snd (h2Conn_Close cl c) = [Closed (reader c), Closed (writer c)] \<and>
      fst (h2Conn_Close cl c) = (case cl (reader c) of Some err \<Rightarrow> Some err | None \<Rightarrow> cl (writer c)) \<and>
      (fst (h2Conn_Close cl c) = None \<longleftrightarrow> cl (reader c) = None \<and> cl (writer c) = None)) \<and>
   (reader (rwc s) \<noteq> writer (rwc s) \<longrightarrow>
      snd (streamConnRW_Close cl s) = [Closed (reader (rwc s)), Closed (writer (rwc s))] \<and>
      fst (streamConnRW_Close cl s) =
        (case cl (reader (rwc s)) of Some err \<Rightarrow> Some err | None \<Rightarrow> cl (writer (rwc s))) \<and>
      (fst (streamConnRW_Close cl s) = None \<longleftrightarrow>
         cl (reader (rwc s)) = None \<and> cl (writer (rwc s)) = None)) \<and>
   (closer t = Some k \<and> k \<noteq> Conn t \<longrightarrow>
      snd (tunnelConn_Close cl t) = [Closed (Conn t), Closed k] \<and>
      fst (tunnelConn_Close cl t) = (case cl (Conn t) of Some err \<Rightarrow> Some err | None \<Rightarrow> cl k) \<and>
      (fst (tunnelConn_Close cl t) = None \<longleftrightarrow> cl (Conn t) = None \<and> cl k = None))"
  by (auto simp: h2Conn_Close_def streamConnRW_Close_def tunnelConn_Close_def Let_def
      split: option.splits)

theorem close_attempts_both_witness:
  "reader \<lparr>reader = ResponseBody 0, writer = PipeWriter 0, pr = PipeReader 0,
      pw = PipeWriter 0\<rparr> \<noteq>
   writer \<lparr>reader = ResponseBody 0, writer = PipeWriter 0, pr = PipeReader 0,
      pw = PipeWriter 0\<rparr> \<and>
   h2Conn_Close (close_fails_on (ResponseBody 0) (ErrorString ''body close failed''))
     \<lparr>reader = ResponseBody 0, writer = PipeWriter 0, pr = PipeReader 0, pw = PipeWriter 0\<rparr> =
   (Some (ErrorString ''body close failed''), [Closed (ResponseBody 0), Closed (PipeWriter 0)]) \<and>
   closer \<lparr>Conn = NetConn 1, closer = Some (ResponseBody 2)\<rparr> = Some (ResponseBody 2) \<and>
   ResponseBody 2 \<noteq> Conn \<lparr>Conn = NetConn 1, closer = Some (ResponseBody 2)\<rparr> \<and>
   tunnelConn_Close (close_fails_on (NetConn 1) (ErrorString ''use of closed connection''))
     \<lparr>Conn = NetConn 1, closer = Some (ResponseBody 2)\<rparr> =
   (Some (ErrorString ''use of closed connection''), [Closed (NetConn 1), Closed (ResponseBody 2)])"
  using close_attempts_both [of
      "\<lparr>reader = ResponseBody 0, writer = PipeWriter 0, pr = PipeReader 0, pw = PipeWriter 0\<rparr>"
      "close_fails_on (ResponseBody 0) (ErrorString ''body close failed'')" _ _ _]
    close_attempts_both [of _ "close_fails_on (NetConn 1) (ErrorString ''use of closed connection'')" _
      "\<lparr>Conn = NetConn 1, closer = Some (ResponseBody 2)\<rparr>" "ResponseBody 2"]
  by (simp add: h2Conn_Close_def tunnelConn_Close_def close_fails_on_def Let_def)

section \<open>Short writes in the copy task\<close>







end
